theory Spec2Isabelle
  imports Complex_Main
begin

section \<open>Data model\<close>

text \<open>
  Resource payloads of the external API are opaque (\<open>any\<close> in the source); they are
  kept as JSON text. Timestamps are whole milliseconds since the epoch, held in \<open>int\<close>;
  the source holds them in JavaScript numbers, so the arithmetic the source does on them
  rounds to the nearest double (\<open>double_round\<close> below).
\<close>

type_synonym json = string

datatype error = Error string

subsection \<open>JavaScript values\<close>

text \<open>
  A webhook body is whatever JSON the sender put there; the interface \<open>IWebhookEvent\<close>
  is only a cast. The fields the handler reads are kept as JavaScript values: \<open>None\<close> is
  a key that is not there (\<open>undefined\<close>), and a value is falsy when it is \<open>null\<close>,
  \<open>false\<close>, zero or the empty string. The keys of an object are distinct, as the JSON
  parser leaves them; reading a property of anything but an object gives \<open>undefined\<close>.
\<close>

datatype jsvalue =
  JNull
  | JBoolean bool
  | JNumber real
  | JString string
  | JArray "jsvalue list"
  | JObject "(string \<times> jsvalue) list"

fun js_truthy :: "jsvalue \<Rightarrow> bool" where
  "js_truthy JNull = False"
| "js_truthy (JBoolean b) = b"
| "js_truthy (JNumber x) = (x \<noteq> 0)"
| "js_truthy (JString s) = (s \<noteq> [])"
| "js_truthy (JArray xs) = True"
| "js_truthy (JObject fs) = True"

definition field_truthy :: "jsvalue option \<Rightarrow> bool" where
  "field_truthy f = (case f of None \<Rightarrow> False | Some v \<Rightarrow> js_truthy v)"

fun js_get :: "jsvalue \<Rightarrow> string \<Rightarrow> jsvalue option" where
  "js_get (JObject fs) k = map_of fs k"
| "js_get v k = None"

subsection \<open>GithubWebhooks.ts: payloads and bus messages\<close>

record IWebhookEvent =
  action :: "jsvalue option"
  issue :: "jsvalue option"
  comment :: "jsvalue option"
  repository :: "jsvalue option"
  sender :: "jsvalue option"
  changes :: "jsvalue option"

definition empty_body :: IWebhookEvent where
  "empty_body =
     \<lparr>action = None, issue = None, comment = None, repository = None, sender = None,
      changes = None\<rparr>"

record NotificationsEnableEvent =
  user_id :: string
  room_id :: string
  since :: int
  token :: string

subsection \<open>UserNotificationWatcher: streams and notifications\<close>

text \<open>
  The Octokit client of a stream is determined by the token it was built with
  (\<open>new Octokit({authStrategy: createTokenAuth, auth: data.token, ...})\<close>), so the
  field \<open>octoKit\<close> holds that token.
\<close>

record UserStream =
  octoKit :: string
  userId :: string
  roomId :: string
  lastReadTs :: int

datatype Reason =
  assign | author | comment_reason | invitation | manual | mention | review_required
  | security_alert | state_change | subscribed | team_mention

datatype SubjectType = PullRequest | Issue

record Subject =
  title :: string
  url :: string
  latest_comment_url :: "string option"
  subject_type :: SubjectType
  url_data :: "json option"
  latest_comment_url_data :: "json option"

record UserNotification =
  notification_id :: string
  reason :: Reason
  unread :: bool
  updated_at :: int
  last_read_at :: int
  notification_url :: string
  subject :: Subject
  notification_repository :: json

record UserNotificationsEvent =
  event_roomId :: string
  event_lastReadTs :: int
  events :: "UserNotification list"

datatype payload = WebhookData IWebhookEvent | NotificationsData UserNotificationsEvent

record message =
  eventName :: string
  message_sender :: string
  data :: payload

subsection \<open>Observable effects\<close>

text \<open>
  Every log line, timer, outgoing request and bus publication of the two source files is
  an effect; a run of the program yields the list of its effects in the order they happen.
  \<open>Fetch u ts t q\<close> is the notification-feed request of line 81, issued at clock
  \<open>t\<close> on the stream of user \<open>u\<close> whose \<open>lastReadTs\<close> is \<open>ts\<close>, for the
  path \<open>q\<close>; \<open>Resolve u t q\<close> is an enrichment request of line 88 or 92;
  \<open>Slept d\<close> is an awaited \<open>setTimeout\<close> called with the delay \<open>d\<close>.
\<close>

datatype effect =
  LogNoUsers
  | LogNoStream
  | LogWaiting int int
  | Slept int
  | LogGetting string int
  | Fetch string int int string
  | Resolve string int string
  | LogPreprocessFailed string
  | LogFetchError
  | LogGotEvent string "jsvalue option"
  | LogFailedToEmit
  | Pushed message
  | SendStatus nat

subsection \<open>The environment\<close>

text \<open>
  What the program calls but does not define is a parameter of the model:
  how late a timer fires (\<open>lateness env t d\<close> is the time by which a timer set at clock
  \<open>t\<close> with delay \<open>d\<close> overshoots the delay it runs with), the external API seen through
  \<open>octoKit.request\<close> (the answer to a request issued at a clock, with a token, for a
  path, and the time the answer takes), \<open>Date.prototype.toISOString\<close>, the HMAC of
  Node's \<open>crypto\<close> module, the JSON parser of the HTTP framework, and the message
  queue.

  Modelled from the spec: \<open>MessageQueue.push\<close> lives in \<open>./MessageQueue/MessageQueue\<close>,
  which is not among the sources. The spec gives it as \<open>publish(topic, payload)\<close> and
  names the failure \<open>PublishFailure\<close> (bus unreachable), so \<open>queuePush env t m\<close>
  is \<open>None\<close> when the message is published and \<open>Some ex\<close> when the call throws.
\<close>

record env =
  lateness :: "int \<Rightarrow> int \<Rightarrow> nat"
  latency :: "int \<Rightarrow> string \<Rightarrow> nat"
  requestNotifications :: "int \<Rightarrow> string \<Rightarrow> string \<Rightarrow> error + UserNotification list"
  requestResource :: "int \<Rightarrow> string \<Rightarrow> string \<Rightarrow> error + json"
  toISOString :: "int \<Rightarrow> string"
  createHmacSha1Hex :: "string \<Rightarrow> string \<Rightarrow> string"
  jsonParse :: "string \<Rightarrow> IWebhookEvent option"
  queuePush :: "int \<Rightarrow> message \<Rightarrow> error option"

section \<open>GithubWebhooks.ts\<close>

subsection \<open>Signature check (lines 156 to 172)\<close>

text \<open>
  \<open>body_is_json\<close> says whether the JSON body parser takes the request: it has a body and
  its content type is \<open>application/json\<close>.
\<close>

record Request =
  body_is_json :: bool
  x_hub_signature :: "string option"
  rawBody :: string

definition getSignature :: "env \<Rightarrow> string \<Rightarrow> string \<Rightarrow> string" where
  "getSignature env secret buf = ''sha1='' @ createHmacSha1Hex env secret buf"

text \<open>
  \<open>verifyRequest\<close> sends status 403 and throws on a mismatch, and returns \<open>true\<close>
  otherwise; the result pairs the effects with the thrown error or the returned value.
\<close>

definition verifyRequest :: "env \<Rightarrow> string \<Rightarrow> Request \<Rightarrow> effect list \<times> (error + bool)" where
  "verifyRequest env secret req =
     (let expected = x_hub_signature req;
          calculated = getSignature env secret (rawBody req)
      in if expected \<noteq> Some calculated
         then ([SendStatus 403], Inl (Error ''Invalid signature.''))
         else ([], Inr True))"

subsection \<open>Classification and publication (lines 89 to 121)\<close>

text \<open>
  The \<open>if\<close> chain of lines 98 to 108 assigns \<open>eventName\<close>; it stays
  \<open>undefined\<close> (here \<open>None\<close>) when no branch is taken. \<open>body.action === "created"\<close>
  holds when the action is that string, and \<open>&& body.comment\<close> when the comment is truthy.
\<close>

definition onPayload_eventName :: "IWebhookEvent \<Rightarrow> string option" where
  "onPayload_eventName body =
     (if action body = Some (JString ''created'') \<and> field_truthy (comment body)
      then Some ''comment.created''
      else if action body = Some (JString ''edited'') \<and> field_truthy (comment body)
      then Some ''comment.edited''
      else if action body = Some (JString ''edited'') \<and> field_truthy (issue body)
      then Some ''issue.edited''
      else if action body = Some (JString ''closed'') \<and> field_truthy (issue body)
      then Some ''issue.closed''
      else if action body = Some (JString ''reopened'') \<and> field_truthy (issue body)
      then Some ''issue.reopened''
      else None)"

definition truthy :: "string option \<Rightarrow> bool" where
  "truthy s = (case s of None \<Rightarrow> False | Some v \<Rightarrow> v \<noteq> [])"

definition onPayload :: "env \<Rightarrow> int \<Rightarrow> IWebhookEvent \<Rightarrow> effect list" where
  "onPayload env t body =
     (let from = (case sender body of
                    None \<Rightarrow> None
                  | Some s \<Rightarrow> if js_truthy s then js_get s ''login'' else None);
          eventName = onPayload_eventName body;
          tried =
            (if truthy eventName then
               (case eventName of
                  None \<Rightarrow> []
                | Some name \<Rightarrow>
                    (let m = \<lparr>eventName = name, message_sender = ''GithubWebhooks'',
                              data = WebhookData body\<rparr>
                     in case queuePush env t m of
                          None \<Rightarrow> [LogGotEvent name from, Pushed m]
                        | Some ex \<Rightarrow> [LogGotEvent name from, LogFailedToEmit]))
             else [])
      in tried @ [SendStatus 200])"

text \<open>
  The route \<open>POST /\<close> as the constructor wires it (lines 58 to 61). The JSON body
  parser leaves a request alone that has no body or another content type: the body is then
  the empty object, and neither \<open>verifyRequest\<close> nor the parser runs. Otherwise it calls
  \<open>verifyRequest\<close> on the raw bytes before it parses them, an error thrown there ends
  the request, and a body that does not parse is answered by the framework with 400.
  \<open>onPayload\<close> handles the body.
\<close>

definition postRoot :: "env \<Rightarrow> string \<Rightarrow> int \<Rightarrow> Request \<Rightarrow> effect list" where
  "postRoot env secret t req =
     (if \<not> body_is_json req then onPayload env t empty_body
      else
        (case verifyRequest env secret req of
           (es, Inl ex) \<Rightarrow> es
         | (es, Inr ok) \<Rightarrow>
             (case jsonParse env (rawBody req) of
                None \<Rightarrow> es @ [SendStatus 400]
              | Some body \<Rightarrow> es @ onPayload env t body)))"

fun statuses :: "effect list \<Rightarrow> nat list" where
  "statuses [] = []"
| "statuses (SendStatus n # es) = n # statuses es"
| "statuses (e # es) = statuses es"

fun pushed :: "effect list \<Rightarrow> message list" where
  "pushed [] = []"
| "pushed (Pushed m # es) = m # pushed es"
| "pushed (e # es) = pushed es"

section \<open>UserNotificationWatcher\<close>

record UserNotificationWatcher =
  userStreams :: "string \<rightharpoonup> UserStream"
  userQueue :: "string list"
  shouldListen :: bool

definition MIN_INTERVAL_MS :: int where
  "MIN_INTERVAL_MS = 45000"

subsection \<open>Numbers and timers\<close>

text \<open>
  A JavaScript number is a double. Whole numbers up to \<open>2 ^ 53\<close> in size are doubles;
  beyond, a double has 53 significant bits, and the result of an operation is the nearest
  double, a tie going to the even significand. \<open>js_minus\<close> is the subtraction of the
  source on whole numbers. (A result too large for a double is infinite in the source; the
  loop only compares it with zero and hands it to a timer, which treats it as any delay
  above its range.)
\<close>

function bit_length :: "int \<Rightarrow> nat" where
  "bit_length n = (if n \<le> 0 then 0 else Suc (bit_length (n div 2)))"
  by pat_completeness auto
termination
  by (relation "measure nat") auto

declare bit_length.simps [simp del]

definition double_round :: "int \<Rightarrow> int" where
  "double_round x =
     (if \<bar>x\<bar> \<le> 9007199254740992 then x
      else
        (let e = bit_length \<bar>x\<bar> - 53;
             q = \<bar>x\<bar> div 2 ^ e;
             r = \<bar>x\<bar> mod 2 ^ e;
             half = 2 ^ (e - 1);
             q' = (if r > half \<or> (r = half \<and> odd q) then q + 1 else q)
         in sgn x * (q' * 2 ^ e)))"

definition js_minus :: "int \<Rightarrow> int \<Rightarrow> int" where
  "js_minus a b = double_round (a - b)"

text \<open>
  \<open>setTimeout\<close> of Node runs a timer with the delay it is given when that is between 1
  and \<open>2 ^ 31 - 1\<close> milliseconds, and with a delay of 1 millisecond otherwise. The
  awaited timer fires once that delay has passed, \<open>lateness\<close> later; \<open>sleep env t d\<close>
  is the clock when \<open>await new Promise((res) => setTimeout(res, d))\<close>, begun at clock
  \<open>t\<close>, is over.
\<close>

definition TIMEOUT_MAX :: int where
  "TIMEOUT_MAX = 2147483647"

definition setTimeout_delay :: "int \<Rightarrow> int" where
  "setTimeout_delay d = (if 1 \<le> d \<and> d \<le> TIMEOUT_MAX then d else 1)"

definition sleep :: "env \<Rightarrow> int \<Rightarrow> int \<Rightarrow> int" where
  "sleep env t d = t + setTimeout_delay d + int (lateness env t d)"

text \<open>
  \<open>userQueue\<close> is a JavaScript array, index 0 first: \<open>push\<close> appends at the end,
  \<open>pop\<close> removes the last element (\<open>undefined\<close>, here \<open>None\<close>, on an empty
  array) and \<open>unshift\<close> inserts at index 0.
\<close>

definition array_push :: "'a list \<Rightarrow> 'a \<Rightarrow> 'a list" where
  "array_push xs x = xs @ [x]"

definition array_pop :: "'a list \<Rightarrow> 'a option \<times> 'a list" where
  "array_pop xs = (if xs = [] then (None, []) else (Some (last xs), butlast xs))"

definition array_unshift :: "'a \<Rightarrow> 'a list \<Rightarrow> 'a list" where
  "array_unshift x xs = x # xs"

definition new_watcher :: UserNotificationWatcher where
  "new_watcher = \<lparr>userStreams = Map.empty, userQueue = [], shouldListen = False\<rparr>"

subsection \<open>start, removeUser, addUser (lines 52 to 57 and 119 to 145)\<close>

text \<open>
  \<open>start\<close> sets the flag and launches the loop, which then runs pass by pass
  (see \<open>fetchUserNotifications\<close> below).
\<close>

definition start :: "UserNotificationWatcher \<Rightarrow> UserNotificationWatcher" where
  "start w = w\<lparr>shouldListen := True\<rparr>"

definition removeUser :: "string \<Rightarrow> UserNotificationWatcher \<Rightarrow> UserNotificationWatcher" where
  "removeUser uid w = w\<lparr>userStreams := (userStreams w)(uid := None)\<rparr>"

definition addUser :: "NotificationsEnableEvent \<Rightarrow> UserNotificationWatcher \<Rightarrow> UserNotificationWatcher" where
  "addUser d w =
     (let clientKit = token d;
          existing = (userStreams w (user_id d) \<noteq> None);
          w1 = w\<lparr>userStreams := (userStreams w)(user_id d \<mapsto>
                 \<lparr>octoKit = clientKit, userId = user_id d, roomId = room_id d,
                  lastReadTs = since d\<rparr>)\<rparr>
      in if \<not> existing then w1\<lparr>userQueue := array_push (userQueue w1) (user_id d)\<rparr>
         else w1)"

subsection \<open>Enrichment of one notification (lines 85 to 101)\<close>

text \<open>
  The functions of the loop take the clock and return the new clock and the effects next
  to their result. \<open>resolve_latest_comment\<close> is lines 91 to 95, \<open>preprocess\<close> the
  whole \<open>try\<close>/\<open>catch\<close> of one item: the item is mutated in place, so what the
  \<open>catch\<close> pushes carries the data attached before the failure. A string is truthy
  when it is not empty.
\<close>

definition resolve_latest_comment ::
  "env \<Rightarrow> UserStream \<Rightarrow> int \<Rightarrow> UserNotification \<Rightarrow> UserNotification \<times> int \<times> effect list" where
  "resolve_latest_comment env stream t rawEvent =
     (if truthy (latest_comment_url (subject rawEvent)) then
        (case latest_comment_url (subject rawEvent) of
           None \<Rightarrow> (rawEvent, t, [])
         | Some u \<Rightarrow>
             (case requestResource env t (octoKit stream) u of
                Inl ex \<Rightarrow>
                  (rawEvent, t + int (latency env t u),
                   [Resolve (userId stream) t u, LogPreprocessFailed (notification_id rawEvent)])
              | Inr d \<Rightarrow>
                  (rawEvent\<lparr>subject := (subject rawEvent)\<lparr>latest_comment_url_data := Some d\<rparr>\<rparr>,
                   t + int (latency env t u), [Resolve (userId stream) t u])))
      else (rawEvent, t, []))"

definition preprocess ::
  "env \<Rightarrow> UserStream \<Rightarrow> int \<Rightarrow> UserNotification \<Rightarrow> UserNotification \<times> int \<times> effect list" where
  "preprocess env stream t rawEvent =
     (let u = url (subject rawEvent) in
      if u \<noteq> [] then
        (case requestResource env t (octoKit stream) u of
           Inl ex \<Rightarrow>
             (rawEvent, t + int (latency env t u),
              [Resolve (userId stream) t u, LogPreprocessFailed (notification_id rawEvent)])
         | Inr d \<Rightarrow>
             (case resolve_latest_comment env stream (t + int (latency env t u))
                     (rawEvent\<lparr>subject := (subject rawEvent)\<lparr>url_data := Some d\<rparr>\<rparr>) of
                (ev, t', es) \<Rightarrow> (ev, t', Resolve (userId stream) t u # es)))
      else resolve_latest_comment env stream t rawEvent)"

fun preprocess_all ::
  "env \<Rightarrow> UserStream \<Rightarrow> int \<Rightarrow> UserNotification list \<Rightarrow> UserNotification list \<times> int \<times> effect list" where
  "preprocess_all env stream t [] = ([], t, [])"
| "preprocess_all env stream t (rawEvent # rest) =
     (case preprocess env stream t rawEvent of
        (ev, t1, es1) \<Rightarrow>
          (case preprocess_all env stream t1 rest of
             (evs, t2, es2) \<Rightarrow> (ev # evs, t2, es1 @ es2)))"

subsection \<open>One poll (the try block, lines 79 to 114)\<close>

text \<open>
  \<open>new Date(ts).toISOString()\<close> throws a RangeError when \<open>ts\<close> is outside the range
  of a Date (more than 8.64e15 ms from the epoch); the throw is inside the \<open>try\<close>.
\<close>

definition since_param :: "env \<Rightarrow> int \<Rightarrow> error + string" where
  "since_param env ts =
     (if ts \<noteq> 0 then
        (if \<bar>ts\<bar> > 8640000000000000 then Inl (Error ''Invalid time value'')
         else Inr (''&since='' @ toISOString env ts))
      else Inr [])"

text \<open>
  The stream object read from the registry under \<open>uid\<close> is the one whose
  \<open>lastReadTs\<close> line 82 assigns, so the registry entry of \<open>uid\<close> changes with it.
\<close>

definition primary_fetch ::
  "env \<Rightarrow> string \<Rightarrow> UserStream \<Rightarrow> int \<Rightarrow> (error + UserNotification list) \<times> int \<times> effect list" where
  "primary_fetch env uid stream t =
     (case since_param env (lastReadTs stream) of
        Inl ex \<Rightarrow> (Inl ex, t, [])
      | Inr s \<Rightarrow>
          (let path = ''/notifications?participating=true'' @ s
           in (requestNotifications env t (octoKit stream) path, t + int (latency env t path),
               [Fetch uid (lastReadTs stream) t path])))"

definition try_fetch ::
  "env \<Rightarrow> string \<Rightarrow> UserStream \<Rightarrow> UserNotificationWatcher \<Rightarrow> int
     \<Rightarrow> UserNotificationWatcher \<times> int \<times> effect list" where
  "try_fetch env uid stream w t =
     (case primary_fetch env uid stream t of
        (Inl ex, t1, es0) \<Rightarrow> (w, t1, es0 @ [LogFetchError])
      | (Inr rawEvents, t1, es0) \<Rightarrow>
          (let stream' = stream\<lparr>lastReadTs := t1\<rparr>;
               w' = w\<lparr>userStreams := (userStreams w)(uid \<mapsto> stream')\<rparr>
           in case preprocess_all env stream' t1 rawEvents of
                (evs, t2, es) \<Rightarrow>
                  (let m = \<lparr>eventName = ''notifications.user.events'',
                            message_sender = ''GithubWebhooks'',
                            data = NotificationsData
                              \<lparr>event_roomId = roomId stream',
                               event_lastReadTs = lastReadTs stream',
                               events = evs\<rparr>\<rparr>
                   in case queuePush env t2 m of
                        None \<Rightarrow> (w', t2, es0 @ es @ [Pushed m])
                      | Some ex \<Rightarrow> (w', t2, es0 @ es @ [LogFetchError]))))"

subsection \<open>The polling loop (lines 59 to 117)\<close>

text \<open>
  \<open>rate_limit_wait\<close> is lines 73 to 77: the wait before a poll, returning the clock
  after it.
\<close>

definition rate_limit_wait :: "env \<Rightarrow> int \<Rightarrow> UserStream \<Rightarrow> int \<times> effect list" where
  "rate_limit_wait env t stream =
     (let interval = js_minus MIN_INTERVAL_MS (js_minus t (lastReadTs stream))
      in if interval > 0
         then (sleep env t interval,
               [LogWaiting (js_minus MIN_INTERVAL_MS interval) interval, Slept interval])
         else (t, []))"

text \<open>
  \<open>loop_pass\<close> is one pass through the body of the \<open>while\<close> loop. An empty
  user id is falsy, so \<open>!userId\<close> holds for it as it does for \<open>undefined\<close>.
\<close>

definition loop_pass ::
  "env \<Rightarrow> UserNotificationWatcher \<Rightarrow> int \<Rightarrow> UserNotificationWatcher \<times> int \<times> effect list" where
  "loop_pass env w t =
     (case array_pop (userQueue w) of
        (popped, q) \<Rightarrow>
          (let w1 = w\<lparr>userQueue := q\<rparr> in
           if \<not> truthy popped then (w1, sleep env t 5000, [LogNoUsers, Slept 5000])
           else
             (case popped of
                None \<Rightarrow> (w1, sleep env t 5000, [LogNoUsers, Slept 5000])
              | Some uid \<Rightarrow>
                  (case userStreams w1 uid of
                     None \<Rightarrow> (w1, t, [LogNoStream])
                   | Some stream \<Rightarrow>
                       (case rate_limit_wait env t stream of
                          (t1, es1) \<Rightarrow>
                            (case try_fetch env uid stream w1 t1 of
                               (w2, t2, es2) \<Rightarrow>
                                 (w2\<lparr>userQueue := array_unshift uid (userQueue w2)\<rparr>, t2,
                                  es1 @ [LogGetting uid (lastReadTs stream)] @ es2)))))))"

text \<open>
  The loop itself: it returns only when a pass ends with \<open>shouldListen\<close> false, so the
  value is \<open>None\<close> when it runs forever. \<open>passes env n\<close> is its first \<open>n\<close>
  passes, with the effects they had.
\<close>

partial_function (option) fetchUserNotifications ::
  "env \<Rightarrow> UserNotificationWatcher \<times> int \<Rightarrow> (UserNotificationWatcher \<times> int) option" where
  "fetchUserNotifications env s =
     (if shouldListen (fst s)
      then (case loop_pass env (fst s) (snd s) of (w', t', es) \<Rightarrow> fetchUserNotifications env (w', t'))
      else Some s)"

fun passes ::
  "env \<Rightarrow> nat \<Rightarrow> UserNotificationWatcher \<Rightarrow> int \<Rightarrow> UserNotificationWatcher \<times> int \<times> effect list" where
  "passes env 0 w t = (w, t, [])"
| "passes env (Suc n) w t =
     (if shouldListen w
      then (case loop_pass env w t of
              (w1, t1, es1) \<Rightarrow>
                (case passes env n w1 t1 of (w2, t2, es2) \<Rightarrow> (w2, t2, es1 @ es2)))
      else (w, t, []))"

fun polled :: "effect list \<Rightarrow> string list" where
  "polled [] = []"
| "polled (LogGetting u ts # es) = u # polled es"
| "polled (e # es) = polled es"

fun fetched :: "effect list \<Rightarrow> string list" where
  "fetched [] = []"
| "fetched (Fetch u ts t q # es) = u # fetched es"
| "fetched (e # es) = fetched es"

fun resolved :: "effect list \<Rightarrow> string list" where
  "resolved [] = []"
| "resolved (Resolve u t q # es) = q # resolved es"
| "resolved (e # es) = resolved es"

section \<open>The program as a whole\<close>

text \<open>
  \<open>GithubWebhooks\<close> owns the watcher, the message queue and the HTTP server (lines 50
  to 87); \<open>webhook_secret\<close> is \<open>config.github.webhook.secret\<close>. The constructor subscribes \<open>addUser\<close> to \<open>notifications.user.enable\<close> and
  \<open>removeUser\<close> to \<open>notifications.user.disable\<close>; \<open>listen\<close> opens the server and
  starts the watcher; \<open>stop\<close> stops the queue and closes the server if there is one.
\<close>

datatype server_state = Listening | Closed

record GithubWebhooks =
  webhook_secret :: string
  userNotificationWatcher :: UserNotificationWatcher
  queueStopped :: bool
  server :: "server_state option"

definition new_GithubWebhooks :: "string \<Rightarrow> GithubWebhooks" where
  "new_GithubWebhooks secret =
     \<lparr>webhook_secret = secret, userNotificationWatcher = new_watcher, queueStopped = False,
      server = None\<rparr>"

definition listen :: "GithubWebhooks \<Rightarrow> GithubWebhooks" where
  "listen g = g\<lparr>server := Some Listening,
                userNotificationWatcher := start (userNotificationWatcher g)\<rparr>"

definition stop :: "GithubWebhooks \<Rightarrow> GithubWebhooks" where
  "stop g = (let g1 = g\<lparr>queueStopped := True\<rparr>
             in case server g1 of None \<Rightarrow> g1 | Some s \<Rightarrow> g1\<lparr>server := Some Closed\<rparr>)"

text \<open>
  What can happen to a running program: a call of \<open>listen\<close> or \<open>stop\<close>, a bus message
  that enables or disables a user, a webhook request, a pass of the polling loop (which
  happens only while the loop runs, that is while \<open>shouldListen\<close> holds), and the passing
  of time. \<open>exec\<close> runs a list of these from a state and a clock.
\<close>

datatype operation =
  Listen | Stop | Enable NotificationsEnableEvent | Disable string
  | Post Request | Pass | Elapse nat

definition apply_operation ::
  "env \<Rightarrow> operation \<Rightarrow> GithubWebhooks \<Rightarrow> int \<Rightarrow> GithubWebhooks \<times> int \<times> effect list" where
  "apply_operation env operation g t =
     (case operation of
        Listen \<Rightarrow> (listen g, t, [])
      | Stop \<Rightarrow> (stop g, t, [])
      | Enable d \<Rightarrow>
          (g\<lparr>userNotificationWatcher := addUser d (userNotificationWatcher g)\<rparr>, t, [])
      | Disable uid \<Rightarrow>
          (g\<lparr>userNotificationWatcher := removeUser uid (userNotificationWatcher g)\<rparr>, t, [])
      | Post req \<Rightarrow> (g, t, postRoot env (webhook_secret g) t req)
      | Pass \<Rightarrow>
          (if shouldListen (userNotificationWatcher g)
           then (case loop_pass env (userNotificationWatcher g) t of
                   (w', t', es) \<Rightarrow> (g\<lparr>userNotificationWatcher := w'\<rparr>, t', es))
           else (g, t, []))
      | Elapse n \<Rightarrow> (g, t + int n, []))"

fun exec ::
  "env \<Rightarrow> operation list \<Rightarrow> GithubWebhooks \<Rightarrow> int \<Rightarrow> GithubWebhooks \<times> int \<times> effect list" where
  "exec env [] g t = (g, t, [])"
| "exec env (operation # rest) g t =
     (case apply_operation env operation g t of
        (g1, t1, es1) \<Rightarrow>
          (case exec env rest g1 t1 of (g2, t2, es2) \<Rightarrow> (g2, t2, es1 @ es2)))"

section \<open>The classification table of the specification\<close>




definition webhook_message :: "string \<Rightarrow> IWebhookEvent \<Rightarrow> message" where
  "webhook_message name body =
     \<lparr>eventName = name, message_sender = ''GithubWebhooks'', data = WebhookData body\<rparr>"

section \<open>Views of notifications and messages\<close>

text \<open>
  \<open>with_url_data\<close> and \<open>with_latest_comment_url_data\<close> attach resolved data to a
  notification. \<open>without_resolved_data\<close> forgets the two fields that enrichment fills
  in, so two notifications with the same image differ at most there, and
  \<open>message_events\<close> reads the batch a published message carries.
\<close>

definition with_url_data :: "json \<Rightarrow> UserNotification \<Rightarrow> UserNotification" where
  "with_url_data d n = n\<lparr>subject := (subject n)\<lparr>url_data := Some d\<rparr>\<rparr>"

definition with_latest_comment_url_data :: "json \<Rightarrow> UserNotification \<Rightarrow> UserNotification" where
  "with_latest_comment_url_data d n =
     n\<lparr>subject := (subject n)\<lparr>latest_comment_url_data := Some d\<rparr>\<rparr>"

definition without_resolved_data :: "UserNotification \<Rightarrow> UserNotification" where
  "without_resolved_data n =
     n\<lparr>subject := (subject n)\<lparr>url_data := None, latest_comment_url_data := None\<rparr>\<rparr>"

definition message_events :: "message \<Rightarrow> UserNotification list" where
  "message_events m = (case data m of NotificationsData e \<Rightarrow> events e | WebhookData b \<Rightarrow> [])"

section \<open>Sample inputs\<close>

text \<open>
  Concrete inputs for the worked instances below. \<open>api_flaky\<close> is an external API that
  answers the feed with one notification, fails on the issue \<open>/repos/o/r/issues/1\<close>
  and answers every other resource; \<open>api_down\<close> fails on everything, and its message
  queue throws. In both the timers fire on time, and the digest and the parser are
  stand-ins. \<open>far_future_added\<close> has one user whose \<open>since\<close> lies 3000000000 ms
  after the clock 1600000000000 used with it, and \<open>falsy_comment_body\<close> is a payload
  whose comment is there but is the empty string.
\<close>

definition sample_notification :: UserNotification where
  "sample_notification =
     \<lparr>notification_id = ''n1'', reason = mention, unread = True, updated_at = 0,
      last_read_at = 0, notification_url = ''/notifications/threads/1'',
      subject = \<lparr>title = ''Crash on start'', url = ''/repos/o/r/issues/1'',
                 latest_comment_url = Some ''/repos/o/r/issues/comments/9'',
                 subject_type = Issue, url_data = None, latest_comment_url_data = None\<rparr>,
      notification_repository = ''o/r''\<rparr>"

definition sample_item :: "string \<Rightarrow> string option \<Rightarrow> UserNotification" where
  "sample_item u c =
     sample_notification\<lparr>subject := (subject sample_notification)\<lparr>url := u, latest_comment_url := c\<rparr>\<rparr>"

definition sample_body :: IWebhookEvent where
  "sample_body =
     \<lparr>action = Some (JString ''created''),
      issue = Some (JObject [(''number'', JNumber 1)]),
      comment = Some (JObject [(''body'', JString ''hello'')]),
      repository = None,
      sender = Some (JObject [(''login'', JString ''alice'')]),
      changes = None\<rparr>"


definition sample_request :: Request where
  "sample_request =
     \<lparr>body_is_json = True, x_hub_signature = Some ''sha1=00'', rawBody = ''{}''\<rparr>"

definition api_flaky :: env where
  "api_flaky =
     \<lparr>lateness = (\<lambda>t d. 0), latency = (\<lambda>t p. 10),
      requestNotifications = (\<lambda>t tok p. Inr [sample_notification]),
      requestResource = (\<lambda>t tok p.
         if p = ''/repos/o/r/issues/1'' then Inl (Error ''502'') else Inr (''data of '' @ p)),
      toISOString = (\<lambda>ts. ''1970-01-01T00:00:00.000Z''),
      createHmacSha1Hex = (\<lambda>key buf. ''00''),
      jsonParse = (\<lambda>buf. Some sample_body),
      queuePush = (\<lambda>t m. None)\<rparr>"

definition api_down :: env where
  "api_down =
     \<lparr>lateness = (\<lambda>t d. 0), latency = (\<lambda>t p. 10),
      requestNotifications = (\<lambda>t tok p. Inl (Error ''503'')),
      requestResource = (\<lambda>t tok p. Inl (Error ''503'')),
      toISOString = (\<lambda>ts. ''1970-01-01T00:00:00.000Z''),
      createHmacSha1Hex = (\<lambda>key buf. ''00''),
      jsonParse = (\<lambda>buf. Some sample_body),
      queuePush = (\<lambda>t m. Some (Error ''queue stopped''))\<rparr>"

definition sample_enable :: "string \<Rightarrow> NotificationsEnableEvent" where
  "sample_enable u = \<lparr>user_id = u, room_id = ''!room'', since = 0, token = ''tok''\<rparr>"

definition sample_stream :: UserStream where
  "sample_stream = \<lparr>octoKit = ''tok'', userId = ''u1'', roomId = ''!room'', lastReadTs = 0\<rparr>"

definition one_added :: UserNotificationWatcher where
  "one_added = addUser (sample_enable ''u1'') (start new_watcher)"

definition three_added :: UserNotificationWatcher where
  "three_added =
     addUser (sample_enable ''u3'') (addUser (sample_enable ''u2'')
       (addUser (sample_enable ''u1'') (start new_watcher)))"


section \<open>Effects of the parts of a pass\<close>

lemma polled_append: "polled (xs @ ys) = polled xs @ polled ys"
  by (induction xs rule: polled.induct) simp_all

lemma fetched_append: "fetched (xs @ ys) = fetched xs @ fetched ys"
  by (induction xs rule: fetched.induct) simp_all

lemma pushed_append: "pushed (xs @ ys) = pushed xs @ pushed ys"
  by (induction xs rule: pushed.induct) simp_all

lemma statuses_append: "statuses (xs @ ys) = statuses xs @ statuses ys"
  by (induction xs rule: statuses.induct) simp_all

lemma resolved_append: "resolved (xs @ ys) = resolved xs @ resolved ys"
  by (induction xs rule: resolved.induct) simp_all

lemma resolve_latest_comment_effects:
  "polled (snd (snd (resolve_latest_comment env st t r))) = []"
  "fetched (snd (snd (resolve_latest_comment env st t r))) = []"
  "pushed (snd (snd (resolve_latest_comment env st t r))) = []"
  by (simp_all add: resolve_latest_comment_def split: option.splits sum.splits)

lemma preprocess_effects:
  "polled (snd (snd (preprocess env st t r))) = []"
  "fetched (snd (snd (preprocess env st t r))) = []"
  "pushed (snd (snd (preprocess env st t r))) = []"
  by (simp_all add: preprocess_def Let_def split_beta resolve_latest_comment_effects
      split: sum.splits)

lemma preprocess_all_effects:
  "polled (snd (snd (preprocess_all env st t rs))) = []"
  "fetched (snd (snd (preprocess_all env st t rs))) = []"
  "pushed (snd (snd (preprocess_all env st t rs))) = []"
  by (induction rs arbitrary: t)
     (simp_all add: split_beta polled_append fetched_append pushed_append preprocess_effects)

lemma primary_fetch_effects:
  "polled (snd (snd (primary_fetch env uid st t))) = []"
  "pushed (snd (snd (primary_fetch env uid st t))) = []"
  by (simp_all add: primary_fetch_def Let_def split: sum.splits)

lemma rate_limit_wait_effects:
  "polled (snd (rate_limit_wait env t st)) = []"
  "fetched (snd (rate_limit_wait env t st)) = []"
  "pushed (snd (rate_limit_wait env t st)) = []"
  by (simp_all add: rate_limit_wait_def Let_def)

lemma try_fetch_polled: "polled (snd (snd (try_fetch env uid st w t))) = []"
  by (simp add: try_fetch_def Let_def split_beta polled_append primary_fetch_effects
      preprocess_all_effects split: sum.splits option.splits)

lemma try_fetch_fetched: "set (fetched (snd (snd (try_fetch env uid st w t)))) \<subseteq> {uid}"
  by (simp add: try_fetch_def Let_def split_beta fetched_append primary_fetch_def
      preprocess_all_effects split: sum.splits option.splits)


lemma try_fetch_userQueue: "userQueue (fst (try_fetch env uid st w t)) = userQueue w"
  by (simp add: try_fetch_def Let_def split_beta split: sum.splits option.splits)

lemma try_fetch_shouldListen: "shouldListen (fst (try_fetch env uid st w t)) = shouldListen w"
  by (simp add: try_fetch_def Let_def split_beta split: sum.splits option.splits)

lemma try_fetch_userStreams:
  "userStreams (fst (try_fetch env uid st w t)) =
     (case fst (primary_fetch env uid st t) of
        Inl ex \<Rightarrow> userStreams w
      | Inr rawEvents \<Rightarrow>
          (userStreams w)(uid \<mapsto> st\<lparr>lastReadTs := fst (snd (primary_fetch env uid st t))\<rparr>))"
  by (simp add: try_fetch_def Let_def split_beta split: sum.splits option.splits)

lemma try_fetch_pushed_failure:
  "fst (primary_fetch env uid st t) = Inl ex \<Longrightarrow> pushed (snd (snd (try_fetch env uid st w t))) = []"
  by (simp add: try_fetch_def Let_def split_beta pushed_append primary_fetch_effects)

section \<open>The three cases of a pass\<close>

text \<open>
  A pass finds nothing to poll (an empty queue, or an empty user id at its end), or a user
  without a stream, or a user with one.
\<close>

lemma loop_pass_idle:
  assumes "userQueue w = [] \<or> last (userQueue w) = []"
  shows "loop_pass env w t =
     (w\<lparr>userQueue := butlast (userQueue w)\<rparr>, sleep env t 5000, [LogNoUsers, Slept 5000])"
  using assms
  by (auto simp add: loop_pass_def array_pop_def truthy_def Let_def)

lemma loop_pass_stale:
  assumes "userQueue w = q @ [uid]" "uid \<noteq> []" "userStreams w uid = None"
  shows "loop_pass env w t = (w\<lparr>userQueue := q\<rparr>, t, [LogNoStream])"
  using assms
  by (simp add: loop_pass_def array_pop_def truthy_def Let_def)

lemma loop_pass_live:
  assumes "userQueue w = q @ [uid]" "uid \<noteq> []" "userStreams w uid = Some st"
  shows "loop_pass env w t =
     (let r = try_fetch env uid st (w\<lparr>userQueue := q\<rparr>) (fst (rate_limit_wait env t st))
      in ((fst r)\<lparr>userQueue := uid # q\<rparr>, fst (snd r),
          snd (rate_limit_wait env t st) @ [LogGetting uid (lastReadTs st)] @ snd (snd r)))"
  using assms
  by (simp add: loop_pass_def array_pop_def array_unshift_def truthy_def Let_def split_beta
      try_fetch_userQueue)

lemma loop_pass_live_facts:
  assumes "userQueue w = q @ [uid]" "uid \<noteq> []" "userStreams w uid = Some st"
  shows "userQueue (fst (loop_pass env w t)) = uid # q"
    and "polled (snd (snd (loop_pass env w t))) = [uid]"
    and "userStreams (fst (loop_pass env w t)) uid \<noteq> None"
    and "u \<noteq> uid \<Longrightarrow> userStreams (fst (loop_pass env w t)) u = userStreams w u"
  using assms
  by (simp_all add: loop_pass_live Let_def try_fetch_userStreams polled_append
      rate_limit_wait_effects try_fetch_polled split: sum.splits)

lemma loop_pass_shouldListen: "shouldListen (fst (loop_pass env w t)) = shouldListen w"
proof (cases "userQueue w = [] \<or> last (userQueue w) = []")
  case True
  then show ?thesis by (simp add: loop_pass_idle)
next
  case False
  then obtain q uid where q: "userQueue w = q @ [uid]" "uid \<noteq> []"
    by (metis append_butlast_last_id)
  show ?thesis
  proof (cases "userStreams w uid")
    case None
    with q show ?thesis by (simp add: loop_pass_stale)
  next
    case (Some st)
    with q show ?thesis by (simp add: loop_pass_live Let_def try_fetch_shouldListen)
  qed
qed

lemma loop_pass_absent:
  assumes "userStreams w u = None"
  shows "userStreams (fst (loop_pass env w t)) u = None
       \<and> u \<notin> set (polled (snd (snd (loop_pass env w t))))
       \<and> u \<notin> set (fetched (snd (snd (loop_pass env w t))))"
proof (cases "userQueue w = [] \<or> last (userQueue w) = []")
  case True
  then show ?thesis using assms by (simp add: loop_pass_idle)
next
  case False
  then obtain q uid where q: "userQueue w = q @ [uid]" "uid \<noteq> []"
    by (metis append_butlast_last_id)
  show ?thesis
  proof (cases "userStreams w uid")
    case None
    with q assms show ?thesis by (simp add: loop_pass_stale)
  next
    case (Some st)
    then have ne: "u \<noteq> uid" using assms by auto
    have f: "u \<notin> set (fetched (snd (snd (try_fetch env uid st (w\<lparr>userQueue := q\<rparr>)
                 (fst (rate_limit_wait env t st))))))"
      using try_fetch_fetched[of env uid st "w\<lparr>userQueue := q\<rparr>" "fst (rate_limit_wait env t st)"] ne
      by auto
    show ?thesis
      using q Some assms ne f
      by (simp add: loop_pass_live Let_def try_fetch_userStreams polled_append fetched_append
          rate_limit_wait_effects try_fetch_polled split: sum.splits)
  qed
qed

lemma passes_absent:
  "userStreams w u = None \<Longrightarrow>
   userStreams (fst (passes env n w t)) u = None
   \<and> u \<notin> set (polled (snd (snd (passes env n w t))))
   \<and> u \<notin> set (fetched (snd (snd (passes env n w t))))"
proof (induction n arbitrary: w t)
  case 0
  then show ?case by simp
next
  case (Suc n)
  from loop_pass_absent[OF Suc.prems, of env t]
  have a: "userStreams (fst (loop_pass env w t)) u = None"
    and b: "u \<notin> set (polled (snd (snd (loop_pass env w t))))"
    and c: "u \<notin> set (fetched (snd (snd (loop_pass env w t))))" by simp_all
  from Suc.IH[OF a, of "fst (snd (loop_pass env w t))"] b c Suc.prems
  show ?case by (simp add: split_beta polled_append fetched_append)
qed

lemma one_added_facts:
  "userQueue one_added = [] @ [''u1'']"
  "userStreams one_added ''u1'' = Some sample_stream"
  "shouldListen one_added"
  by (simp_all add: one_added_def sample_enable_def addUser_def start_def new_watcher_def
      array_push_def sample_stream_def Let_def)

section \<open>Rotation order\<close>

text \<open>
  C1, as the code has it. \<open>addUser\<close> pushes the new user id at the end of the array,
  the loop pops from that same end and requeues the polled user at the front. So when three
  users with distinct, non-empty ids are registered in the order u1, u2, u3 on a fresh,
  started watcher and the loop then makes three passes, each of the three is polled exactly
  once, in the order u3, u2, u1 (the reverse of the insertion order), and the queue is
  again u1, u2, u3.
\<close>

theorem newest_first_rotation:
  assumes "distinct [user_id d1, user_id d2, user_id d3]"
    and "user_id d1 \<noteq> []" "user_id d2 \<noteq> []" "user_id d3 \<noteq> []"
  shows "(let w = addUser d3 (addUser d2 (addUser d1 (start new_watcher)));
              r = passes env 3 w t in
          userQueue w = [user_id d1, user_id d2, user_id d3]
          \<and> polled (snd (snd r)) = [user_id d3, user_id d2, user_id d1]
          \<and> userQueue (fst r) = [user_id d1, user_id d2, user_id d3])"
proof -
  let ?w = "addUser d3 (addUser d2 (addUser d1 (start new_watcher)))"
  let ?u1 = "user_id d1" and ?u2 = "user_id d2" and ?u3 = "user_id d3"
  have w: "userQueue ?w = [?u1, ?u2] @ [?u3]" "shouldListen ?w"
    "userStreams ?w ?u1 \<noteq> None" "userStreams ?w ?u2 \<noteq> None" "userStreams ?w ?u3 \<noteq> None"
    using assms(1)
    by (auto simp add: addUser_def start_def new_watcher_def array_push_def Let_def)
  obtain s3 where s3: "userStreams ?w ?u3 = Some s3" using w(5) by auto
  define r1 where "r1 = loop_pass env ?w t"
  note f1 = loop_pass_live_facts[OF w(1) assms(4) s3, where env=env and t=t, folded r1_def]
  have q1: "userQueue (fst r1) = [?u3, ?u1] @ [?u2]" using f1(1) by simp
  have l1: "shouldListen (fst r1)" using w(2) by (simp add: r1_def loop_pass_shouldListen)
  have "userStreams (fst r1) ?u2 \<noteq> None" using f1(4)[of ?u2] assms(1) w(4) by simp
  then obtain s2 where s2: "userStreams (fst r1) ?u2 = Some s2" by auto
  have k1: "userStreams (fst r1) ?u1 \<noteq> None" using f1(4)[of ?u1] assms(1) w(3) by simp
  define r2 where "r2 = loop_pass env (fst r1) (fst (snd r1))"
  note f2 = loop_pass_live_facts[OF q1 assms(3) s2, where env=env and t="fst (snd r1)", folded r2_def]
  have q2: "userQueue (fst r2) = [?u2, ?u3] @ [?u1]" using f2(1) by simp
  have l2: "shouldListen (fst r2)" using l1 by (simp add: r2_def loop_pass_shouldListen)
  have "userStreams (fst r2) ?u1 \<noteq> None" using f2(4)[of ?u1] assms(1) k1 by simp
  then obtain s1 where s1: "userStreams (fst r2) ?u1 = Some s1" by auto
  define r3 where "r3 = loop_pass env (fst r2) (fst (snd r2))"
  note f3 = loop_pass_live_facts[OF q2 assms(2) s1, where env=env and t="fst (snd r2)", folded r3_def]
  have p: "passes env 3 ?w t =
      (fst r3, fst (snd r3), snd (snd r1) @ snd (snd r2) @ snd (snd r3))"
    using w(2) l1 l2
    by (simp add: numeral_3_eq_3 split_beta r1_def[symmetric] r2_def[symmetric] r3_def[symmetric])
  show ?thesis
    using w(1) f1(2) f2(2) f3(1,2) unfolding Let_def p
    by (simp add: polled_append)
qed

theorem newest_first_rotation_witness:
  "distinct [''u1'', ''u2'', ''u3'']
   \<and> polled (snd (snd (passes api_down 3 three_added 0))) = [''u3'', ''u2'', ''u1'']
   \<and> userQueue (fst (passes api_down 3 three_added 0)) = [''u1'', ''u2'', ''u3'']"
  using newest_first_rotation[of "sample_enable ''u1''" "sample_enable ''u2''" "sample_enable ''u3''" api_down 0]
  by (simp add: sample_enable_def three_added_def Let_def)

text \<open>
  C1 as stated fails: with the users added in the order u1, u2, u3, the first fetches go
  out for u3, then u2, then u1, so the order of first polls is not the insertion order.
\<close>

theorem insertion_order_counterexample:
  "userQueue three_added = [''u1'', ''u2'', ''u3'']
   \<and> fetched (snd (snd (passes api_flaky 3 three_added 1600000000000))) = [''u3'', ''u2'', ''u1'']
   \<and> polled (snd (snd (passes api_flaky 3 three_added 1600000000000))) \<noteq> [''u1'', ''u2'', ''u3'']"
  by (simp add: three_added_def sample_enable_def addUser_def start_def new_watcher_def
      array_push_def array_pop_def array_unshift_def Let_def numeral_3_eq_3 loop_pass_def
      truthy_def rate_limit_wait_def MIN_INTERVAL_MS_def try_fetch_def primary_fetch_def
      since_param_def api_flaky_def sample_notification_def preprocess_def
      resolve_latest_comment_def js_minus_def double_round_def)

section \<open>Minimum interval between polls\<close>

text \<open>
  Rounding to a double, at the first whole numbers that are not doubles and at a clock
  value; it leaves whole numbers up to \<open>2 ^ 53\<close> as they are and keeps the
  larger ones at least that large, with their sign. So a wait that the timer can run with
  has been computed exactly, and a wait that is not positive means that 45000 ms have
  passed.
\<close>

lemma double_round_examples:
  "double_round 9007199254740993 = 9007199254740992"
  "double_round 9007199254740995 = 9007199254740996"
  "double_round 18014398509481986 = 18014398509481984"
  "double_round 18014398509481990 = 18014398509481992"
  "double_round (- 9007199254740993) = - 9007199254740992"
  "double_round 1600000000000 = 1600000000000"
  by code_simp+











section \<open>Webhook classification\<close>




text \<open>
  The rows of the chain, read off the code one by one, and the values that count as
  falsy.
\<close>

lemma onPayload_eventName_rows:
  "action body = Some (JString ''created'') \<Longrightarrow> field_truthy (comment body) \<Longrightarrow>
     onPayload_eventName body = Some ''comment.created''"
  "action body = Some (JString ''edited'') \<Longrightarrow> field_truthy (comment body) \<Longrightarrow>
     onPayload_eventName body = Some ''comment.edited''"
  "action body = Some (JString ''edited'') \<Longrightarrow> \<not> field_truthy (comment body) \<Longrightarrow>
     field_truthy (issue body) \<Longrightarrow> onPayload_eventName body = Some ''issue.edited''"
  "action body = Some (JString ''closed'') \<Longrightarrow> field_truthy (issue body) \<Longrightarrow>
     onPayload_eventName body = Some ''issue.closed''"
  "action body = Some (JString ''reopened'') \<Longrightarrow> field_truthy (issue body) \<Longrightarrow>
     onPayload_eventName body = Some ''issue.reopened''"
  "action body \<notin> Some ` JString ` {''created'', ''edited'', ''closed'', ''reopened''} \<Longrightarrow>
     onPayload_eventName body = None"
  "\<not> field_truthy (comment body) \<Longrightarrow> \<not> field_truthy (issue body) \<Longrightarrow>
     onPayload_eventName body = None"
  by (simp_all add: onPayload_eventName_def)

lemma js_truthy_values:
  "\<not> js_truthy JNull" "\<not> js_truthy (JBoolean False)" "\<not> js_truthy (JNumber 0)"
  "\<not> js_truthy (JString [])" "js_truthy (JBoolean True)" "js_truthy (JNumber 1)"
  "js_truthy (JString ''0'')" "js_truthy (JArray [])" "js_truthy (JObject [])"
  "\<not> field_truthy None" "field_truthy (Some v) = js_truthy v"
  by (simp_all add: field_truthy_def)

section \<open>Signature check\<close>

text \<open>
  For a request the body parser takes, the check accepts exactly when the header is
  \<open>sha1=\<close> followed by the digest of the raw bytes under the secret, and a rejected
  request is answered with 403 and reaches neither the parser nor \<open>onPayload\<close>; so does
  an accepted request once its header is changed. A request the body parser does not take
  is not checked at all: its body is the empty object, nothing is published and the
  answer is 200.
\<close>

lemma verifyRequest_accepts:
  "snd (verifyRequest env secret req) = Inr True \<longleftrightarrow>
   x_hub_signature req = Some (''sha1='' @ createHmacSha1Hex env secret (rawBody req))"
  by (simp add: verifyRequest_def getSignature_def Let_def)

lemma verifyRequest_rejects:
  "body_is_json req \<Longrightarrow>
   x_hub_signature req \<noteq> Some (''sha1='' @ createHmacSha1Hex env secret (rawBody req)) \<Longrightarrow>
   postRoot env secret t req = [SendStatus 403]"
  by (simp add: postRoot_def verifyRequest_def getSignature_def Let_def)

lemma verifyRequest_header_changed:
  "body_is_json req \<Longrightarrow>
   snd (verifyRequest env secret req) = Inr True \<Longrightarrow> h \<noteq> x_hub_signature req \<Longrightarrow>
   postRoot env secret t (req\<lparr>x_hub_signature := h\<rparr>) = [SendStatus 403]"
  by (simp add: postRoot_def verifyRequest_def getSignature_def Let_def split: if_splits)

lemma postRoot_not_json:
  "\<not> body_is_json req \<Longrightarrow> postRoot env secret t req = [SendStatus 200]"
  by (simp add: postRoot_def onPayload_def onPayload_eventName_def empty_body_def truthy_def
      Let_def)

section \<open>Lazy removal\<close>

text \<open>
  C5. \<open>removeUser u\<close> deletes the stream of \<open>u\<close> from the registry at once and
  leaves the queue as it is. However many passes the loop then makes, \<open>u\<close> has no
  stream, is not polled and no notification-feed request goes out for it; and when
  \<open>u\<close> is the next to be dequeued, that pass removes it from the queue without
  putting it back, leaves the registry alone, and polls and fetches nothing.
\<close>

theorem lazy_removal:
  "userStreams (removeUser u w) u = None \<and> userQueue (removeUser u w) = userQueue w
   \<and> (\<forall>n t. (let r = passes env n (removeUser u w) t in
         userStreams (fst r) u = None
         \<and> u \<notin> set (polled (snd (snd r))) \<and> u \<notin> set (fetched (snd (snd r)))
         \<and> (\<forall>q. userQueue (fst r) = q @ [u] \<longrightarrow>
              (let r' = loop_pass env (fst r) (fst (snd r)) in
                 userQueue (fst r') = q \<and> userStreams (fst r') = userStreams (fst r)
                 \<and> polled (snd (snd r')) = [] \<and> fetched (snd (snd r')) = []))))"
proof -
  have 0: "userStreams (removeUser u w) u = None" by (simp add: removeUser_def)
  have 1: "userQueue (removeUser u w) = userQueue w" by (simp add: removeUser_def)
  have 2: "userQueue (fst (loop_pass env w1 t1)) = q \<and> userStreams (fst (loop_pass env w1 t1)) = userStreams w1
                 \<and> polled (snd (snd (loop_pass env w1 t1))) = [] \<and> fetched (snd (snd (loop_pass env w1 t1))) = []"
    if "userStreams w1 u = None" "userQueue w1 = q @ [u]" for w1 t1 q
  proof (cases "u = []")
    case True
    with that show ?thesis by (simp add: loop_pass_idle)
  next
    case False
    with that show ?thesis by (simp add: loop_pass_stale)
  qed
  show ?thesis
    using 0 1 passes_absent[OF 0, of env] 2 by (simp add: Let_def)
qed

theorem lazy_removal_witness:
  "userStreams one_added ''u1'' \<noteq> None
   \<and> userStreams (removeUser ''u1'' one_added) ''u1'' = None
   \<and> userQueue (removeUser ''u1'' one_added) = [] @ [''u1'']
   \<and> userQueue (fst (loop_pass api_flaky (removeUser ''u1'' one_added) 0)) = []
   \<and> fetched (snd (snd (loop_pass api_flaky (removeUser ''u1'' one_added) 0))) = []"
proof -
  from lazy_removal[of "''u1''" one_added api_flaky]
  have a: "userStreams (removeUser ''u1'' one_added) ''u1'' = None"
    and b: "userQueue (removeUser ''u1'' one_added) = userQueue one_added"
    and c: "\<forall>q. userQueue (fst (passes api_flaky 0 (removeUser ''u1'' one_added) 0)) = q @ [''u1''] \<longrightarrow>
        (let r' = loop_pass api_flaky (fst (passes api_flaky 0 (removeUser ''u1'' one_added) 0))
                    (fst (snd (passes api_flaky 0 (removeUser ''u1'' one_added) 0)))
         in userQueue (fst r') = q
            \<and> userStreams (fst r') = userStreams (fst (passes api_flaky 0 (removeUser ''u1'' one_added) 0))
            \<and> polled (snd (snd r')) = [] \<and> fetched (snd (snd r')) = [])"
    unfolding Let_def by blast+
  have q: "userQueue (removeUser ''u1'' one_added) = [] @ [''u1'']"
    using b one_added_facts(1) by simp
  from c q have "userQueue (fst (loop_pass api_flaky (removeUser ''u1'' one_added) 0)) = []
     \<and> fetched (snd (snd (loop_pass api_flaky (removeUser ''u1'' one_added) 0))) = []"
    by (simp add: Let_def)
  with a q one_added_facts(2) show ?thesis by simp
qed

section \<open>Enrichment\<close>

lemma resolve_latest_comment_strip:
  "without_resolved_data (fst (resolve_latest_comment env st t r)) = without_resolved_data r"
  by (simp add: resolve_latest_comment_def without_resolved_data_def
      split: option.splits sum.splits)

lemma preprocess_strip:
  "without_resolved_data (fst (preprocess env st t r)) = without_resolved_data r"
  using resolve_latest_comment_strip[of env st _ "r\<lparr>subject := (subject r)\<lparr>url_data := Some _\<rparr>\<rparr>"]
  by (simp add: preprocess_def Let_def split_beta resolve_latest_comment_strip
      split: sum.splits) (simp add: without_resolved_data_def)

lemma preprocess_all_strip:
  "map without_resolved_data (fst (preprocess_all env st t raws)) = map without_resolved_data raws"
  by (induction raws arbitrary: t) (simp_all add: split_beta preprocess_strip)

lemma preprocess_all_items:
  "list_all2 (\<lambda>raw ev. \<exists>t'. ev = fst (preprocess env st t' raw)) raws
     (fst (preprocess_all env st t raws))"
  by (induction raws arbitrary: t) (auto simp add: split_beta)

lemma try_fetch_batch:
  assumes "fst (primary_fetch env uid st t) = Inr feed"
  shows "\<forall>m \<in> set (pushed (snd (snd (try_fetch env uid st w t)))).
           message_events m =
             fst (preprocess_all env (st\<lparr>lastReadTs := fst (snd (primary_fetch env uid st t))\<rparr>)
                    (fst (snd (primary_fetch env uid st t))) feed)"
    and "(\<forall>t' m. queuePush env t' m = None) \<Longrightarrow>
         length (pushed (snd (snd (try_fetch env uid st w t)))) = 1"
  using assms
  by (simp_all add: try_fetch_def Let_def split_beta pushed_append primary_fetch_effects
      preprocess_all_effects message_events_def split: option.splits)

text \<open>
  C6, as the code has it. Both enrichment requests of a notification sit in one
  \<open>try\<close>. For one notification, with \<open>out\<close> what is passed on and \<open>asked\<close> the
  addresses requested, in order:
  \<^item> the request for \<open>subject.url\<close> fails: the notification is passed on as it was, and
    the request for \<open>subject.latest_comment_url\<close> is not made;
  \<^item> it succeeds and the request for a non-empty \<open>subject.latest_comment_url\<close> fails:
    \<open>url_data\<close> is attached and nothing else changes;
  \<^item> both succeed: both data are attached;
  \<^item> it succeeds and there is no latest-comment address: \<open>url_data\<close> is attached, and
    no second request is made;
  \<^item> \<open>subject.url\<close> is empty: only the latest-comment request is made, when there is an
    address for it; its data is attached when it succeeds, and the notification is passed
    on as it was when it fails or is not made.

  For a batch, every notification that comes out is the enrichment of the one that came in
  at its place, so the batch has the same notifications in the same order, unchanged
  outside the two resolved-data fields; and after a successful feed request every message
  published carries exactly that batch, and one message is published when the queue does
  not throw.
\<close>

theorem enrichment_best_effort:
  "(let u = url (subject r); c = latest_comment_url (subject r); k = octoKit st;
        t1 = t + int (latency env t u);
        out = fst (preprocess env st t r);
        asked = resolved (snd (snd (preprocess env st t r)))
    in (u \<noteq> [] \<and> requestResource env t k u = Inl ex \<longrightarrow> out = r \<and> asked = [u])
     \<and> (u \<noteq> [] \<and> requestResource env t k u = Inr d \<and> c = Some cu \<and> cu \<noteq> []
          \<and> requestResource env t1 k cu = Inl ex \<longrightarrow>
            out = with_url_data d r \<and> asked = [u, cu])
     \<and> (u \<noteq> [] \<and> requestResource env t k u = Inr d \<and> c = Some cu \<and> cu \<noteq> []
          \<and> requestResource env t1 k cu = Inr dc \<longrightarrow>
            out = with_latest_comment_url_data dc (with_url_data d r) \<and> asked = [u, cu])
     \<and> (u \<noteq> [] \<and> requestResource env t k u = Inr d \<and> \<not> truthy c \<longrightarrow>
            out = with_url_data d r \<and> asked = [u])
     \<and> (u = [] \<and> c = Some cu \<and> cu \<noteq> [] \<and> requestResource env t k cu = Inl ex \<longrightarrow>
            out = r \<and> asked = [cu])
     \<and> (u = [] \<and> c = Some cu \<and> cu \<noteq> [] \<and> requestResource env t k cu = Inr dc \<longrightarrow>
            out = with_latest_comment_url_data dc r \<and> asked = [cu])
     \<and> (u = [] \<and> \<not> truthy c \<longrightarrow> out = r \<and> asked = []))
   \<and> list_all2 (\<lambda>raw ev. \<exists>t'. ev = fst (preprocess env st t' raw)) raws
        (fst (preprocess_all env st t raws))
   \<and> map without_resolved_data (fst (preprocess_all env st t raws)) = map without_resolved_data raws
   \<and> (fst (primary_fetch env uid st t) = Inr feed \<longrightarrow>
        (\<forall>m \<in> set (pushed (snd (snd (try_fetch env uid st w t)))).
           message_events m =
             fst (preprocess_all env (st\<lparr>lastReadTs := fst (snd (primary_fetch env uid st t))\<rparr>)
                    (fst (snd (primary_fetch env uid st t))) feed))
        \<and> ((\<forall>t' m. queuePush env t' m = None) \<longrightarrow>
             length (pushed (snd (snd (try_fetch env uid st w t)))) = 1))"
proof -
  have item: "(let u = url (subject r); c = latest_comment_url (subject r); k = octoKit st;
        t1 = t + int (latency env t u);
        out = fst (preprocess env st t r);
        asked = resolved (snd (snd (preprocess env st t r)))
    in (u \<noteq> [] \<and> requestResource env t k u = Inl ex \<longrightarrow> out = r \<and> asked = [u])
     \<and> (u \<noteq> [] \<and> requestResource env t k u = Inr d \<and> c = Some cu \<and> cu \<noteq> []
          \<and> requestResource env t1 k cu = Inl ex \<longrightarrow>
            out = with_url_data d r \<and> asked = [u, cu])
     \<and> (u \<noteq> [] \<and> requestResource env t k u = Inr d \<and> c = Some cu \<and> cu \<noteq> []
          \<and> requestResource env t1 k cu = Inr dc \<longrightarrow>
            out = with_latest_comment_url_data dc (with_url_data d r) \<and> asked = [u, cu])
     \<and> (u \<noteq> [] \<and> requestResource env t k u = Inr d \<and> \<not> truthy c \<longrightarrow>
            out = with_url_data d r \<and> asked = [u])
     \<and> (u = [] \<and> c = Some cu \<and> cu \<noteq> [] \<and> requestResource env t k cu = Inl ex \<longrightarrow>
            out = r \<and> asked = [cu])
     \<and> (u = [] \<and> c = Some cu \<and> cu \<noteq> [] \<and> requestResource env t k cu = Inr dc \<longrightarrow>
            out = with_latest_comment_url_data dc r \<and> asked = [cu])
     \<and> (u = [] \<and> \<not> truthy c \<longrightarrow> out = r \<and> asked = []))"
    by (simp add: preprocess_def resolve_latest_comment_def Let_def truthy_def
        with_url_data_def with_latest_comment_url_data_def)
  from item preprocess_all_items[of env st raws t] preprocess_all_strip[of env st t raws]
    try_fetch_batch[of env uid st t feed w]
  show ?thesis by blast
qed

theorem enrichment_best_effort_witness:
  "fst (preprocess api_flaky sample_stream 0
          (sample_item ''/repos/o/r/issues/1'' (Some ''/repos/o/r/issues/comments/9'')))
     = sample_item ''/repos/o/r/issues/1'' (Some ''/repos/o/r/issues/comments/9'')
   \<and> fst (preprocess api_flaky sample_stream 0
          (sample_item ''/repos/o/r/pulls/2'' (Some ''/repos/o/r/issues/1'')))
     = with_url_data ''data of /repos/o/r/pulls/2''
         (sample_item ''/repos/o/r/pulls/2'' (Some ''/repos/o/r/issues/1''))
   \<and> fst (preprocess api_flaky sample_stream 0
          (sample_item ''/repos/o/r/pulls/2'' (Some ''/repos/o/r/issues/comments/9'')))
     = with_latest_comment_url_data ''data of /repos/o/r/issues/comments/9''
         (with_url_data ''data of /repos/o/r/pulls/2''
            (sample_item ''/repos/o/r/pulls/2'' (Some ''/repos/o/r/issues/comments/9'')))
   \<and> fst (preprocess api_flaky sample_stream 0 (sample_item ''/repos/o/r/pulls/2'' None))
     = with_url_data ''data of /repos/o/r/pulls/2'' (sample_item ''/repos/o/r/pulls/2'' None)
   \<and> fst (preprocess api_flaky sample_stream 0 (sample_item [] (Some ''/repos/o/r/issues/1'')))
     = sample_item [] (Some ''/repos/o/r/issues/1'')
   \<and> resolved (snd (snd (preprocess api_flaky sample_stream 0
          (sample_item [] (Some ''/repos/o/r/issues/1''))))) = [''/repos/o/r/issues/1'']
   \<and> fst (preprocess api_flaky sample_stream 0
          (sample_item [] (Some ''/repos/o/r/issues/comments/9'')))
     = with_latest_comment_url_data ''data of /repos/o/r/issues/comments/9''
         (sample_item [] (Some ''/repos/o/r/issues/comments/9''))
   \<and> fst (preprocess api_flaky sample_stream 0 (sample_item [] None)) = sample_item [] None
   \<and> resolved (snd (snd (preprocess api_flaky sample_stream 0 (sample_item [] None)))) = []
   \<and> fst (primary_fetch api_flaky ''u1'' sample_stream 0) = Inr [sample_notification]
   \<and> length (pushed (snd (snd (try_fetch api_flaky ''u1'' sample_stream one_added 0)))) = 1"
proof -
  note defs = Let_def sample_item_def sample_notification_def api_flaky_def sample_stream_def
    truthy_def
  note e = enrichment_best_effort[where env = api_flaky and st = sample_stream and t = 0]
  have a: "fst (preprocess api_flaky sample_stream 0
          (sample_item ''/repos/o/r/issues/1'' (Some ''/repos/o/r/issues/comments/9'')))
     = sample_item ''/repos/o/r/issues/1'' (Some ''/repos/o/r/issues/comments/9'')"
    using e[where r = "sample_item ''/repos/o/r/issues/1'' (Some ''/repos/o/r/issues/comments/9'')"
        and ex = "Error ''502''"]
    by (simp add: defs)
  have b: "fst (preprocess api_flaky sample_stream 0
          (sample_item ''/repos/o/r/pulls/2'' (Some ''/repos/o/r/issues/1'')))
     = with_url_data ''data of /repos/o/r/pulls/2''
         (sample_item ''/repos/o/r/pulls/2'' (Some ''/repos/o/r/issues/1''))"
    using e[where r = "sample_item ''/repos/o/r/pulls/2'' (Some ''/repos/o/r/issues/1'')"
        and ex = "Error ''502''" and d = "''data of /repos/o/r/pulls/2''"
        and cu = "''/repos/o/r/issues/1''"]
    by (simp add: defs)
  have c: "fst (preprocess api_flaky sample_stream 0
          (sample_item ''/repos/o/r/pulls/2'' (Some ''/repos/o/r/issues/comments/9'')))
     = with_latest_comment_url_data ''data of /repos/o/r/issues/comments/9''
         (with_url_data ''data of /repos/o/r/pulls/2''
            (sample_item ''/repos/o/r/pulls/2'' (Some ''/repos/o/r/issues/comments/9'')))"
    using e[where r = "sample_item ''/repos/o/r/pulls/2'' (Some ''/repos/o/r/issues/comments/9'')"
        and d = "''data of /repos/o/r/pulls/2''" and cu = "''/repos/o/r/issues/comments/9''"
        and dc = "''data of /repos/o/r/issues/comments/9''"]
    by (simp add: defs)
  have d: "fst (preprocess api_flaky sample_stream 0 (sample_item ''/repos/o/r/pulls/2'' None))
     = with_url_data ''data of /repos/o/r/pulls/2'' (sample_item ''/repos/o/r/pulls/2'' None)"
    using e[where r = "sample_item ''/repos/o/r/pulls/2'' None"
        and d = "''data of /repos/o/r/pulls/2''"]
    by (simp add: defs)
  have f: "fst (preprocess api_flaky sample_stream 0 (sample_item [] (Some ''/repos/o/r/issues/1'')))
     = sample_item [] (Some ''/repos/o/r/issues/1'')
   \<and> resolved (snd (snd (preprocess api_flaky sample_stream 0
          (sample_item [] (Some ''/repos/o/r/issues/1''))))) = [''/repos/o/r/issues/1'']"
    using e[where r = "sample_item [] (Some ''/repos/o/r/issues/1'')"
        and ex = "Error ''502''" and cu = "''/repos/o/r/issues/1''"]
    by (simp add: defs)
  have g: "fst (preprocess api_flaky sample_stream 0
          (sample_item [] (Some ''/repos/o/r/issues/comments/9'')))
     = with_latest_comment_url_data ''data of /repos/o/r/issues/comments/9''
         (sample_item [] (Some ''/repos/o/r/issues/comments/9''))"
    using e[where r = "sample_item [] (Some ''/repos/o/r/issues/comments/9'')"
        and cu = "''/repos/o/r/issues/comments/9''"
        and dc = "''data of /repos/o/r/issues/comments/9''"]
    by (simp add: defs)
  have h: "fst (preprocess api_flaky sample_stream 0 (sample_item [] None)) = sample_item [] None
   \<and> resolved (snd (snd (preprocess api_flaky sample_stream 0 (sample_item [] None)))) = []"
    using e[where r = "sample_item [] None"]
    by (simp add: defs)
  have p: "fst (primary_fetch api_flaky ''u1'' sample_stream 0) = Inr [sample_notification]"
    by (simp add: primary_fetch_def since_param_def sample_stream_def api_flaky_def)
  have q: "\<forall>t' m. queuePush api_flaky t' m = None" by (simp add: api_flaky_def)
  have i: "length (pushed (snd (snd (try_fetch api_flaky ''u1'' sample_stream one_added 0)))) = 1"
    using e[where uid = "''u1''" and feed = "[sample_notification]" and w = one_added] p q
    by blast
  from a b c d f g h p i show ?thesis by blast
qed

text \<open>
  C6 as stated fails: when the request for \<open>subject.url\<close> fails, the request for
  \<open>subject.latest_comment_url\<close> is never attempted, although the API would have
  answered it.
\<close>

theorem independent_fetches_counterexample:
  "requestResource api_flaky 0 ''tok'' ''/repos/o/r/issues/comments/9''
     = Inr ''data of /repos/o/r/issues/comments/9''
   \<and> resolved (snd (snd (preprocess api_flaky sample_stream 0 sample_notification)))
       = [''/repos/o/r/issues/1'']
   \<and> ''/repos/o/r/issues/comments/9''
       \<notin> set (resolved (snd (snd (preprocess api_flaky sample_stream 0 sample_notification))))"
  by (simp add: preprocess_def api_flaky_def sample_stream_def sample_notification_def Let_def)

section \<open>Requeueing after a poll\<close>

text \<open>
  C7. A pass that dequeues a user with a stream puts the user back at the front of the
  queue whatever the feed request does; and when the feed request throws, the registry
  (and with it the user's \<open>lastReadTs\<close>) is unchanged and the pass publishes nothing.
\<close>

theorem requeue_unconditional:
  assumes "userQueue w = q @ [uid]" "uid \<noteq> []" "userStreams w uid = Some st"
  shows "userQueue (fst (loop_pass env w t)) = uid # q
     \<and> (\<forall>ex. fst (primary_fetch env uid st (fst (rate_limit_wait env t st))) = Inl ex \<longrightarrow>
           userStreams (fst (loop_pass env w t)) = userStreams w
           \<and> pushed (snd (snd (loop_pass env w t))) = [])"
  using assms
  by (simp add: loop_pass_live Let_def try_fetch_userStreams pushed_append
      rate_limit_wait_effects try_fetch_pushed_failure)

theorem requeue_unconditional_witness:
  "userQueue one_added = [] @ [''u1''] \<and> userStreams one_added ''u1'' = Some sample_stream
   \<and> fst (primary_fetch api_down ''u1'' sample_stream
            (fst (rate_limit_wait api_down 1600000000000 sample_stream))) = Inl (Error ''503'')
   \<and> userQueue (fst (loop_pass api_down one_added 1600000000000)) = [''u1'']
   \<and> userStreams (fst (loop_pass api_down one_added 1600000000000)) = userStreams one_added
   \<and> pushed (snd (snd (loop_pass api_down one_added 1600000000000))) = []"
proof -
  have n: "''u1'' \<noteq> []" by simp
  have f: "fst (primary_fetch api_down ''u1'' sample_stream
            (fst (rate_limit_wait api_down 1600000000000 sample_stream))) = Inl (Error ''503'')"
    by (simp add: primary_fetch_def since_param_def sample_stream_def api_down_def)
  from requeue_unconditional[OF one_added_facts(1) n one_added_facts(2), of api_down 1600000000000] f
    one_added_facts
  show ?thesis by simp
qed

section \<open>The webhook response\<close>

lemma onPayload_statuses: "statuses (onPayload env t body) = [200]"
  by (simp add: onPayload_def Let_def statuses_append split: option.splits)

text \<open>
  C8. A request whose signature is accepted and whose body parses is answered with status
  200 and nothing else, whatever the classification gives and whether or not the message
  queue throws.
\<close>

theorem always_200:
  assumes "snd (verifyRequest env secret req) = Inr True"
    and "jsonParse env (rawBody req) = Some body"
  shows "statuses (postRoot env secret t req) = [200]"
  using assms
  by (simp add: postRoot_def verifyRequest_def Let_def onPayload_statuses split: if_splits)

theorem always_200_witness:
  "snd (verifyRequest api_down ''secret'' sample_request) = Inr True
   \<and> jsonParse api_down (rawBody sample_request) = Some sample_body
   \<and> queuePush api_down 0 (webhook_message ''comment.created'' sample_body) \<noteq> None
   \<and> statuses (postRoot api_down ''secret'' 0 sample_request) = [200]"
proof -
  have v: "snd (verifyRequest api_down ''secret'' sample_request) = Inr True"
    by (simp add: verifyRequest_def getSignature_def sample_request_def api_down_def)
  have j: "jsonParse api_down (rawBody sample_request) = Some sample_body"
    by (simp add: api_down_def)
  have p: "queuePush api_down 0 (webhook_message ''comment.created'' sample_body) \<noteq> None"
    by (simp add: api_down_def)
  from always_200[OF v j, of 0] v j p show ?thesis by simp
qed

section \<open>The loop never stops\<close>

lemma loop_never_returns_aux:
  assumes "fetchUserNotifications env s = Some y"
  shows "\<not> shouldListen (fst s)"
proof (rule fetchUserNotifications.raw_induct
    [where P = "\<lambda>e s y. \<not> shouldListen (fst s)" and env = env and s = s and y = y])
  show "fetchUserNotifications env s = Some y" by fact
next
  fix f :: "env \<Rightarrow> UserNotificationWatcher \<times> int \<Rightarrow> (UserNotificationWatcher \<times> int) option"
  fix e s' y'
  assume IH: "\<And>e s y. f e s = Some y \<Longrightarrow> \<not> shouldListen (fst s)"
    and step: "(if shouldListen (fst s')
          then case loop_pass e (fst s') (snd s') of (w', t', es) \<Rightarrow> f e (w', t')
          else Some s') = Some y'"
  show "\<not> shouldListen (fst s')"
  proof
    assume l: "shouldListen (fst s')"
    with step have "f e (fst (loop_pass e (fst s') (snd s')),
        fst (snd (loop_pass e (fst s') (snd s')))) = Some y'"
      by (simp add: split_beta)
    from IH[OF this] l show False by (simp add: loop_pass_shouldListen)
  qed
qed

lemma apply_operation_shouldListen:
  "shouldListen (userNotificationWatcher g) \<Longrightarrow>
   shouldListen (userNotificationWatcher (fst (apply_operation env operation g t)))"
  by (cases operation)
     (simp_all add: apply_operation_def listen_def stop_def start_def addUser_def removeUser_def
        Let_def split_beta loop_pass_shouldListen split: option.splits)

lemma exec_shouldListen:
  "shouldListen (userNotificationWatcher g) \<Longrightarrow>
   shouldListen (userNotificationWatcher (fst (exec env ops g t)))"
proof (induction ops arbitrary: g t)
  case Nil
  then show ?case by simp
next
  case (Cons a ops)
  from Cons.IH[OF apply_operation_shouldListen[OF Cons.prems]]
  show ?case by (simp add: split_beta)
qed

text \<open>
  C9. After \<open>listen\<close> has started the watcher, \<open>shouldListen\<close> holds after every
  sequence of operations of the program, \<open>stop\<close> among them; and the polling loop,
  entered with the flag set, does not return.
\<close>

theorem never_stops:
  "shouldListen (userNotificationWatcher (fst (exec env ops (listen g) t)))
   \<and> fetchUserNotifications env (start w, t) = None"
proof -
  have a: "shouldListen (userNotificationWatcher (listen g))"
    by (simp add: listen_def start_def)
  have "fetchUserNotifications env (start w, t) \<noteq> Some y" for y
    using loop_never_returns_aux[of env "(start w, t)" y] by (auto simp add: start_def)
  then have b: "fetchUserNotifications env (start w, t) = None" by (cases "fetchUserNotifications env (start w, t)") auto
  from exec_shouldListen[OF a] b show ?thesis by simp
qed

theorem never_stops_witness:
  "shouldListen (userNotificationWatcher
     (fst (exec api_flaky [Enable (sample_enable ''u1''), Pass, Stop, Disable ''u1'', Pass]
             (listen (new_GithubWebhooks ''secret'')) 0)))
   \<and> fetchUserNotifications api_flaky (start new_watcher, 0) = None"
  using never_stops[of api_flaky
      "[Enable (sample_enable ''u1''), Pass, Stop, Disable ''u1'', Pass]"
      "new_GithubWebhooks ''secret''" 0 new_watcher]
  by simp

section \<open>Duplicate queue entries\<close>




end
